theory Spec2Isabelle
  imports Main
begin

section \<open>JavaScript values\<close>

text \<open>
  The adapter receives its session data as \<^verbatim>\<open>Record<string, unknown>\<close> and casts it;
  nothing is checked at run time. The model therefore keeps values dynamically typed:
  an object is an association list of its own properties (the first binding of a key is
  the one that is read), an array is a list. Numbers are restricted to integers, strings
  to byte strings.
\<close>

datatype jsval =
    JUndefined
  | JNull
  | JBool bool
  | JNum int
  | JStr string
  | JArr "jsval list"
  | JObj "(string \<times> jsval) list"

type_synonym jsobj = "(string \<times> jsval) list"

text \<open>
  A thrown value. \<^verbatim>\<open>buildError\<close> is typed \<^verbatim>\<open>PaymentProviderError | Error\<close> and applies
  the \<^verbatim>\<open>in\<close> operator to what was caught, so thrown values are objects: the properties of
  the object are what the model keeps.
\<close>

type_synonym jserr = jsobj

definition Error :: "string \<Rightarrow> jserr" where
  "Error message = [(''name'', JStr ''Error''), (''message'', JStr message)]"

text \<open>The engine's own TypeError; the wording of its message is the engine's, abbreviated here.\<close>

definition TypeError :: "string \<Rightarrow> jserr" where
  "TypeError message = [(''name'', JStr ''TypeError''), (''message'', JStr message)]"

definition has_key :: "jsobj \<Rightarrow> string \<Rightarrow> bool" where
  \<comment> \<open>\<^verbatim>\<open>k in obj\<close>\<close>
  "has_key obj k = (map_of obj k \<noteq> None)"

definition field :: "jsobj \<Rightarrow> string \<Rightarrow> jsval" where
  \<comment> \<open>\<^verbatim>\<open>obj.k\<close> on an object: a missing property reads as undefined\<close>
  "field obj k = (case map_of obj k of None \<Rightarrow> JUndefined | Some v \<Rightarrow> v)"

fun nullish :: "jsval \<Rightarrow> bool" where
  "nullish JUndefined = True"
| "nullish JNull = True"
| "nullish _ = False"

fun truthy :: "jsval \<Rightarrow> bool" where
  "truthy JUndefined = False"
| "truthy JNull = False"
| "truthy (JBool b) = b"
| "truthy (JNum n) = (n \<noteq> 0)"
| "truthy (JStr s) = (s \<noteq> [])"
| "truthy (JArr xs) = True"
| "truthy (JObj kvs) = True"

definition coalesce :: "jsval \<Rightarrow> jsval \<Rightarrow> jsval" where
  \<comment> \<open>\<^verbatim>\<open>a ?? b\<close>\<close>
  "coalesce a b = (if nullish a then b else a)"

fun get :: "jsval \<Rightarrow> string \<Rightarrow> jserr + jsval" where
  \<comment> \<open>\<^verbatim>\<open>v.k\<close> for a data property \<open>k\<close>: reading from undefined or null throws\<close>
  "get JUndefined k = Inl (TypeError ''Cannot read properties of undefined'')"
| "get JNull k = Inl (TypeError ''Cannot read properties of null'')"
| "get (JObj kvs) k = Inr (field kvs k)"
| "get (JArr xs) k = Inr (if k = ''length'' then JNum (int (length xs)) else JUndefined)"
| "get (JStr s) k = Inr (if k = ''length'' then JNum (int (length s)) else JUndefined)"
| "get (JBool b) k = Inr JUndefined"
| "get (JNum n) k = Inr JUndefined"

fun show_nat :: "nat \<Rightarrow> string" where
  "show_nat n =
     (if n < 10 then [''0123456789'' ! n]
      else show_nat (n div 10) @ [''0123456789'' ! (n mod 10)])"

declare show_nat.simps [simp del]

definition show_int :: "int \<Rightarrow> string" where
  "show_int i = (if i < 0 then CHR ''-'' # show_nat (nat (- i)) else show_nat (nat i))"

fun at :: "jsval \<Rightarrow> nat \<Rightarrow> jserr + jsval" where
  \<comment> \<open>\<^verbatim>\<open>v[i]\<close>: out of range reads as undefined, it does not throw\<close>
  "at JUndefined i = Inl (TypeError ''Cannot read properties of undefined'')"
| "at JNull i = Inl (TypeError ''Cannot read properties of null'')"
| "at (JArr xs) i = Inr (if i < length xs then xs ! i else JUndefined)"
| "at (JStr s) i = Inr (if i < length s then JStr [s ! i] else JUndefined)"
| "at (JObj kvs) i = Inr (field kvs (show_nat i))"
| "at (JBool b) i = Inr JUndefined"
| "at (JNum n) i = Inr JUndefined"

datatype key = F string | I nat

fun read :: "jsval \<Rightarrow> key \<Rightarrow> jserr + jsval" where
  "read v (F k) = get v k"
| "read v (I i) = at v i"

fun reads :: "jsval \<Rightarrow> key list \<Rightarrow> jserr + jsval" where
  \<comment> \<open>a chain of property reads \<^verbatim>\<open>v.a[0].b\<close>, left to right; the first failing read throws\<close>
  "reads v [] = Inr v"
| "reads v (k # ks) = (case read v k of Inl e \<Rightarrow> Inl e | Inr v' \<Rightarrow> reads v' ks)"

fun join :: "string \<Rightarrow> string list \<Rightarrow> string" where
  "join sep [] = []"
| "join sep [s] = s"
| "join sep (s # t # ss) = s @ sep @ join sep (t # ss)"

fun toString :: "jsval \<Rightarrow> string" where
  \<comment> \<open>the conversion a template literal applies to an interpolated value\<close>
  "toString JUndefined = ''undefined''"
| "toString JNull = ''null''"
| "toString (JBool b) = (if b then ''true'' else ''false'')"
| "toString (JNum n) = show_int n"
| "toString (JStr s) = s"
| "toString (JArr xs) = join '','' (map (\<lambda>x. if nullish x then [] else toString x) xs)"
| "toString (JObj kvs) = ''[object Object]''"

definition EOL :: string where
  \<comment> \<open>\<^verbatim>\<open>os.EOL\<close> on a POSIX host\<close>
  "EOL = [CHR 0x0A]"

section \<open>Error normalisation\<close>

definition NormalizedError :: "string \<Rightarrow> jsval \<Rightarrow> jsval \<Rightarrow> jsval" where
  "NormalizedError message code detail =
     JObj [(''error'', JStr message), (''code'', code), (''detail'', detail)]"

definition isPaymentProviderError :: "jsobj \<Rightarrow> bool" where
  \<comment> \<open>The host library's predicate, as the specification describes it: the error already
      carries the three properties error, code and detail.\<close>
  "isPaymentProviderError obj =
     (has_key obj ''error'' \<and> has_key obj ''code'' \<and> has_key obj ''detail'')"

definition buildError :: "string \<Rightarrow> jserr \<Rightarrow> jsval" where
  "buildError message error =
     NormalizedError message
       (if has_key error ''code'' then field error ''code'' else JStr ''unknown'')
       (if isPaymentProviderError error
        then JStr (toString (field error ''error'') @ EOL
                   @ toString (coalesce (field error ''detail'') (JStr [])))
        else if has_key error ''detail'' then field error ''detail''
        else coalesce (field error ''message'') (JStr []))"

section \<open>The amount formatter\<close>

record PaypalCurrencyOptions =
  decimal :: "bool option"
  places :: "nat option"

definition plain :: PaypalCurrencyOptions where
  \<comment> \<open>the entry \<^verbatim>\<open>{}\<close>\<close>
  "plain = \<lparr>decimal = None, places = None\<rparr>"

definition no_decimal :: PaypalCurrencyOptions where
  \<comment> \<open>the entry \<^verbatim>\<open>{ decimal: false }\<close>\<close>
  "no_decimal = \<lparr>decimal = Some False, places = None\<rparr>"

definition PAYPAL_CURRENCY_CODES :: "(string \<times> PaypalCurrencyOptions) list" where
  "PAYPAL_CURRENCY_CODES =
     [(''AUD'', plain), (''BRL'', plain), (''CAD'', plain), (''CNY'', plain),
      (''CZK'', plain), (''DKK'', plain), (''EUR'', plain), (''HKD'', plain),
      (''HUF'', no_decimal), (''ILS'', plain), (''JPY'', no_decimal), (''MYR'', plain),
      (''MXN'', plain), (''TWD'', no_decimal), (''NZD'', plain), (''NOK'', plain),
      (''PHP'', plain), (''PLN'', plain), (''GBP'', plain), (''RUB'', plain),
      (''SGD'', plain), (''SEK'', plain), (''CHF'', plain), (''THB'', plain),
      (''USD'', plain)]"

definition upper_char :: "char \<Rightarrow> char" where
  "upper_char c =
     (case map_of (zip ''abcdefghijklmnopqrstuvwxyz'' ''ABCDEFGHIJKLMNOPQRSTUVWXYZ'') c of
        None \<Rightarrow> c | Some u \<Rightarrow> u)"

definition toUpperCase :: "string \<Rightarrow> string" where
  \<comment> \<open>on the ASCII letters; other bytes are kept\<close>
  "toUpperCase s = map upper_char s"

text \<open>
  \<^verbatim>\<open>new BigNumber(amount, { precision }).numeric.toFixed(precision)\<close> belongs to the host
  library. It is the parameter \<open>toFixed\<close>: given the amount and the precision it renders
  the string or throws.
\<close>

definition convertAmount ::
  "(jsval \<Rightarrow> nat \<Rightarrow> jserr + string) \<Rightarrow> jsval \<Rightarrow> jsval \<Rightarrow> jserr + jsval" where
  "convertAmount toFixed amount currency =
     (case currency of
        JStr c \<Rightarrow>
          (let upper = toUpperCase c in
           case map_of PAYPAL_CURRENCY_CODES upper of
             None \<Rightarrow> Inl (Error (''Currency '' @ c @ '' is not supported by Paypal''))
           | Some currencyOptions \<Rightarrow>
               (let precision =
                      (if decimal currencyOptions = Some False then 0
                       else (case places currencyOptions of None \<Rightarrow> 2 | Some p \<Rightarrow> p))
                in case toFixed amount precision of
                     Inl e \<Rightarrow> Inl e
                   | Inr v \<Rightarrow>
                       if length v > 32
                       then Inl (Error (''Amount string exceeds 32 character limit: '' @ v))
                       else Inr (JObj [(''value'', JStr v), (''currency_code'', JStr upper)])))
      | JUndefined \<Rightarrow> Inl (TypeError ''Cannot read properties of undefined'')
      | JNull \<Rightarrow> Inl (TypeError ''Cannot read properties of null'')
      | _ \<Rightarrow> Inl (TypeError ''currency.toUpperCase is not a function''))"

section \<open>The remote client and the effects of a call\<close>

text \<open>
  \<^verbatim>\<open>PaypalSdk\<close> is injected. Its capability set is the type of requests; the client
  itself is a transition function on a remote state of any type: a request either throws
  or answers, and the remote state moves on. The adapter awaits every request before
  the next one, so a lifecycle method is a sequential computation over the remote state
  which also records, in order, each request it issued.
\<close>

datatype call =
    CreateOrder jsval
  | GetOrder jsval
  | PatchOrder jsval jsval
  | CaptureAuthorizedPayment jsval
  | CancelAuthorizedPayment jsval
  | RefundPayment jsval jsval  \<comment> \<open>the second argument is undefined when it is left out\<close>
  | GetAuthorizationPayment jsval
  | VerifyWebhook jsval

fun is_mutation :: "call \<Rightarrow> bool" where
  "is_mutation (GetOrder i) = False"
| "is_mutation (GetAuthorizationPayment i) = False"
| "is_mutation (VerifyWebhook d) = False"
| "is_mutation _ = True"

fun is_void :: "call \<Rightarrow> bool" where
  "is_void (CancelAuthorizedPayment i) = True"
| "is_void _ = False"

fun is_refund :: "call \<Rightarrow> bool" where
  "is_refund (RefundPayment i a) = True"
| "is_refund _ = False"

text \<open>
  The fields \<^verbatim>\<open>options_\<close> and \<^verbatim>\<open>paypal_\<close> of the class, without the trailing underscore,
  and the host library's number rendering that \<^verbatim>\<open>convertAmount\<close> calls.
\<close>

record 's PayPalBase =
  options :: jsobj
  paypal :: "call \<Rightarrow> 's \<Rightarrow> (jserr + jsval) \<times> 's"
  toFixed :: "jsval \<Rightarrow> nat \<Rightarrow> jserr + string"

type_synonym 's world = "call list \<times> 's"

type_synonym ('a, 's) prog = "'s world \<Rightarrow> (jserr + 'a) \<times> 's world"

definition ret :: "'a \<Rightarrow> ('a, 's) prog" where
  "ret x = (\<lambda>w. (Inr x, w))"

definition throw :: "jserr \<Rightarrow> ('a, 's) prog" where
  "throw e = (\<lambda>w. (Inl e, w))"

definition lift :: "jserr + 'a \<Rightarrow> ('a, 's) prog" where
  \<comment> \<open>a step that touches no remote state\<close>
  "lift r = (\<lambda>w. (r, w))"

definition bnd :: "('a, 's) prog \<Rightarrow> ('a \<Rightarrow> ('b, 's) prog) \<Rightarrow> ('b, 's) prog" where
  \<comment> \<open>sequencing: a throw skips the rest\<close>
  "bnd m f = (\<lambda>w. case m w of (Inl e, w') \<Rightarrow> (Inl e, w') | (Inr x, w') \<Rightarrow> f x w')"

definition catch :: "('a, 's) prog \<Rightarrow> (jserr \<Rightarrow> ('a, 's) prog) \<Rightarrow> ('a, 's) prog" where
  \<comment> \<open>\<^verbatim>\<open>try { m } catch (e) { h e }\<close>\<close>
  "catch m h = (\<lambda>w. case m w of (Inl e, w') \<Rightarrow> h e w' | (Inr x, w') \<Rightarrow> (Inr x, w'))"

definition remote :: "'s PayPalBase \<Rightarrow> call \<Rightarrow> (jsval, 's) prog" where
  \<comment> \<open>\<^verbatim>\<open>await this.paypal_.request(...)\<close>: the request is recorded whether or not it fails\<close>
  "remote this c =
     (\<lambda>(tr, s). case paypal this c s of (r, s') \<Rightarrow> (r, (tr @ [c], s')))"

section \<open>Status enumerations\<close>

text \<open>
  Modelled from the spec: the enumeration \<^verbatim>\<open>PaypalOrderStatus\<close> of \<^verbatim>\<open>../types\<close>, which
  is not among the sources; the specification lists its six members, and each is the
  string of its name.
\<close>

abbreviation CREATED :: jsval where "CREATED \<equiv> JStr ''CREATED''"
abbreviation SAVED :: jsval where "SAVED \<equiv> JStr ''SAVED''"
abbreviation APPROVED :: jsval where "APPROVED \<equiv> JStr ''APPROVED''"
abbreviation PAYER_ACTION_REQUIRED :: jsval where
  "PAYER_ACTION_REQUIRED \<equiv> JStr ''PAYER_ACTION_REQUIRED''"
abbreviation VOIDED :: jsval where "VOIDED \<equiv> JStr ''VOIDED''"
abbreviation COMPLETED :: jsval where "COMPLETED \<equiv> JStr ''COMPLETED''"

text \<open>The host's session statuses.\<close>

datatype PaymentSessionStatus =
  AUTHORIZED | CAPTURED | PENDING | REQUIRES_MORE | ERROR | CANCELED

fun status_value :: "PaymentSessionStatus \<Rightarrow> jsval" where
  "status_value AUTHORIZED = JStr ''authorized''"
| "status_value CAPTURED = JStr ''captured''"
| "status_value PENDING = JStr ''pending''"
| "status_value REQUIRES_MORE = JStr ''requires_more''"
| "status_value ERROR = JStr ''error''"
| "status_value CANCELED = JStr ''canceled''"

section \<open>The payment session adapter\<close>

definition retrievePayment :: "'s PayPalBase \<Rightarrow> jsval \<Rightarrow> (jsval, 's) prog" where
  \<comment> \<open>the catch block builds the error object and drops it: the method then ends without
      a return statement, which yields undefined\<close>
  "retrievePayment this paymentSessionData =
     catch
       (bnd (lift (get paymentSessionData ''id'')) (\<lambda>id.
        remote this (GetOrder id)))
       (\<lambda>error.
          let dropped = buildError ''An error occurred in retrievePayment'' error
          in ret JUndefined)"

definition getPaymentStatus ::
  "'s PayPalBase \<Rightarrow> jsval \<Rightarrow> (PaymentSessionStatus, 's) prog" where
  "getPaymentStatus this paymentSessionData =
     bnd (retrievePayment this paymentSessionData) (\<lambda>order.
     bnd (lift (get order ''status'')) (\<lambda>status.
     ret (if status = CREATED then PENDING
          else if status = SAVED \<or> status = APPROVED \<or> status = PAYER_ACTION_REQUIRED
            then REQUIRES_MORE
          else if status = VOIDED then CANCELED
          else if status = COMPLETED then AUTHORIZED
          else PENDING)))"

definition initiatePayment :: "'s PayPalBase \<Rightarrow> jsval \<Rightarrow> (jsval, 's) prog" where
  \<comment> \<open>the two destructurings stand before the try block\<close>
  "initiatePayment this input =
     bnd (lift (reads input [F ''context'', F ''session_id''])) (\<lambda>session_id.
     bnd (lift (get input ''currency_code'')) (\<lambda>currency_code.
     bnd (lift (get input ''amount'')) (\<lambda>amount.
     catch
       (let intent = (if truthy (field (options this) ''capture'')
                      then ''CAPTURE'' else ''AUTHORIZE'') in
        bnd (lift (convertAmount (toFixed this) amount currency_code)) (\<lambda>converted.
        bnd (remote this (CreateOrder (JObj
               [(''intent'', JStr intent),
                (''purchase_units'', JArr [JObj
                   [(''custom_id'', session_id), (''amount'', converted)]])]))) (\<lambda>sessionData.
        ret (JObj [(''data'', sessionData)]))))
       (\<lambda>e. ret (buildError
          ''An error ocurred in InitiatePayment during the creation of the PayPal payment intent''
          e)))))"

definition authorizePayment :: "'s PayPalBase \<Rightarrow> jsval \<Rightarrow> jsval \<Rightarrow> (jsval, 's) prog" where
  "authorizePayment this paymentSessionData context =
     catch
       (bnd (getPaymentStatus this paymentSessionData) (\<lambda>status.
        bnd (retrievePayment this paymentSessionData) (\<lambda>data.
        ret (JObj [(''data'', data), (''status'', status_value status)]))))
       (\<lambda>error. ret (buildError ''An error occurred in authorizePayment'' error))"

definition capturesLength :: "jsval \<Rightarrow> jserr + jsval" where
  \<comment> \<open>the callback \<^verbatim>\<open>(pu) => pu.payments.captures?.length\<close>\<close>
  "capturesLength pu =
     (case reads pu [F ''payments'', F ''captures''] of
        Inl e \<Rightarrow> Inl e
      | Inr captures \<Rightarrow> if nullish captures then Inr JUndefined else get captures ''length'')"

fun some_list :: "(jsval \<Rightarrow> jserr + jsval) \<Rightarrow> jsval list \<Rightarrow> jserr + bool" where
  "some_list f [] = Inr False"
| "some_list f (x # xs) =
     (case f x of
        Inl e \<Rightarrow> Inl e
      | Inr v \<Rightarrow> if truthy v then Inr True else some_list f xs)"

definition some :: "(jsval \<Rightarrow> jserr + jsval) \<Rightarrow> jsval \<Rightarrow> jserr + bool" where
  \<comment> \<open>\<^verbatim>\<open>v.some(f)\<close>: only an array has the method\<close>
  "some f v =
     (case v of
        JArr xs \<Rightarrow> some_list f xs
      | JUndefined \<Rightarrow> Inl (TypeError ''Cannot read properties of undefined'')
      | JNull \<Rightarrow> Inl (TypeError ''Cannot read properties of null'')
      | _ \<Rightarrow> Inl (TypeError ''purchase_units.some is not a function''))"

text \<open>
  The specification's words about captures, on the data: a purchase unit has a capture
  when the callback above reads a truthy length from it, and has none when the callback
  reads a falsy one; a unit from which the callback cannot read (it carries no payments
  object) is neither.
\<close>

definition has_capture :: "jsval \<Rightarrow> bool" where
  "has_capture pu = (case capturesLength pu of Inl e \<Rightarrow> False | Inr v \<Rightarrow> truthy v)"

definition no_capture :: "jsval \<Rightarrow> bool" where
  "no_capture pu = (case capturesLength pu of Inl e \<Rightarrow> False | Inr v \<Rightarrow> \<not> truthy v)"

definition any_capture :: "jsval \<Rightarrow> bool" where
  "any_capture purchase_units =
     (case purchase_units of JArr pus \<Rightarrow> list_ex has_capture pus | _ \<Rightarrow> False)"

definition cancelPayment :: "'s PayPalBase \<Rightarrow> jsval \<Rightarrow> (jsval, 's) prog" where
  \<comment> \<open>the retrieval and the two status tests stand before the try block\<close>
  "cancelPayment this paymentSessionData =
     bnd (retrievePayment this paymentSessionData) (\<lambda>order.
     bnd (lift (get order ''status'')) (\<lambda>status.
     let isAlreadyCanceled = (status = VOIDED) in
     bnd (if status = COMPLETED
          then bnd (lift (get order ''invoice_id'')) (\<lambda>invoice_id. ret (truthy invoice_id))
          else ret False) (\<lambda>isCanceledAndFullyRefunded.
     if isAlreadyCanceled \<or> isCanceledAndFullyRefunded then ret order
     else
       catch
         (bnd (lift (get paymentSessionData ''purchase_units'')) (\<lambda>purchase_units.
          bnd (lift (some capturesLength purchase_units)) (\<lambda>isAlreadyCaptured.
          bnd (if isAlreadyCaptured
               then bnd (lift (reads purchase_units [I 0, F ''payments''])) (\<lambda>payments.
                    bnd (lift (reads payments [F ''captures'', I 0, F ''id''])) (\<lambda>payId.
                    remote this (RefundPayment payId JUndefined)))
               else bnd (lift (reads purchase_units
                                 [I 0, F ''payments'', F ''authorizations'', I 0, F ''id'']))
                      (\<lambda>id.
                    remote this (CancelAuthorizedPayment id))) (\<lambda>done.
          retrievePayment this paymentSessionData))))
         (\<lambda>error. ret (buildError ''An error occurred in cancelPayment'' error)))))"

definition capturePayment :: "'s PayPalBase \<Rightarrow> jsval \<Rightarrow> (jsval, 's) prog" where
  \<comment> \<open>the authorization id is read before the try block\<close>
  "capturePayment this paymentSessionData =
     bnd (lift (get paymentSessionData ''purchase_units'')) (\<lambda>purchase_units.
     bnd (lift (reads purchase_units
                  [I 0, F ''payments'', F ''authorizations'', I 0, F ''id''])) (\<lambda>id.
     catch
       (bnd (remote this (CaptureAuthorizedPayment id)) (\<lambda>done.
        retrievePayment this paymentSessionData))
       (\<lambda>error. ret (buildError ''an error occurred in capturePayment'' error))))"

definition deletePayment :: "'s PayPalBase \<Rightarrow> jsval \<Rightarrow> (jsval, 's) prog" where
  "deletePayment this paymentSessionData = ret paymentSessionData"

definition refundPayment :: "'s PayPalBase \<Rightarrow> jsval \<Rightarrow> jsval \<Rightarrow> (jsval, 's) prog" where
  "refundPayment this paymentSessionData refundAmount =
     bnd (lift (get paymentSessionData ''purchase_units'')) (\<lambda>purchase_units.
     catch
       (bnd (lift (at purchase_units 0)) (\<lambda>purchaseUnit.
        bnd (lift (get purchaseUnit ''payments'')) (\<lambda>payments.
        bnd (lift (some capturesLength purchase_units)) (\<lambda>isAlreadyCaptured.
        if \<not> isAlreadyCaptured
        then throw (Error ''Cannot refund an uncaptured payment'')
        else
          bnd (lift (reads payments [F ''captures'', I 0, F ''id''])) (\<lambda>paymentId.
          bnd (lift (reads purchaseUnit [F ''amount'', F ''currency_code''])) (\<lambda>currency_code.
          bnd (lift (convertAmount (toFixed this) refundAmount currency_code)) (\<lambda>converted.
          bnd (remote this (RefundPayment paymentId (JObj [(''amount'', converted)]))) (\<lambda>done.
          retrievePayment this paymentSessionData))))))))
       (\<lambda>error. ret (buildError ''An error occurred in refundPayment'' error)))"

definition replaceAmount :: "jsval \<Rightarrow> jsval" where
  \<comment> \<open>the patch document \<^verbatim>\<open>updatePayment\<close> sends: one replace operation on the default
      purchase unit\<close>
  "replaceAmount converted =
     JArr [JObj
       [(''op'', JStr ''replace''),
        (''path'', JStr (''/purchase_units/@reference_id=='' @ [CHR 0x27]
                         @ ''default'' @ [CHR 0x27])),
        (''value'', JObj [(''amount'', converted)])]]"

definition updatePayment :: "'s PayPalBase \<Rightarrow> jsval \<Rightarrow> (jsval, 's) prog" where
  \<comment> \<open>the handler of the inner \<^verbatim>\<open>.catch\<close> ignores its own argument and wraps the error
      caught by the outer catch block\<close>
  "updatePayment this input =
     catch
       (bnd (lift (get input ''currency_code'')) (\<lambda>currency_code.
        bnd (lift (get input ''amount'')) (\<lambda>amount.
        bnd (lift (reads input [F ''data'', F ''id''])) (\<lambda>id.
        bnd (lift (convertAmount (toFixed this) amount currency_code)) (\<lambda>converted.
        bnd (remote this (PatchOrder id (replaceAmount converted))) (\<lambda>done.
        bnd (lift (get input ''data'')) (\<lambda>data.
        ret (JObj [(''data'', data)]))))))))
       (\<lambda>error.
          catch (initiatePayment this input)
            (\<lambda>e. ret (buildError ''An error occurred in updatePayment'' error)))"

text \<open>
  The host library's \<^verbatim>\<open>MedusaError\<close>: its constructor assigns the properties type, code
  and message (and a date, left out here); the code is undefined when the caller passes
  none, as \<^verbatim>\<open>updatePaymentData\<close> does.
\<close>

definition MedusaError :: "string \<Rightarrow> string \<Rightarrow> jserr" where
  "MedusaError type message =
     [(''name'', JStr ''Error''), (''type'', JStr type), (''code'', JUndefined),
      (''message'', JStr message)]"

definition INVALID_DATA :: string where
  "INVALID_DATA = ''invalid_data''"

definition updatePaymentData :: "'s PayPalBase \<Rightarrow> jsval \<Rightarrow> jsval \<Rightarrow> (jsval, 's) prog" where
  "updatePaymentData this sessionId data =
     catch
       (bnd (lift (get data ''amount'')) (\<lambda>amount.
        if truthy amount
        then throw (MedusaError INVALID_DATA ''Cannot update amount, use updatePayment instead'')
        else ret data))
       (\<lambda>error. ret (buildError ''An error occurred in updatePaymentData'' error))"

definition relIsUp :: "jsval \<Rightarrow> jserr + bool" where
  \<comment> \<open>the callback \<^verbatim>\<open>(l) => l.rel === "up"\<close>\<close>
  "relIsUp l = (case get l ''rel'' of Inl e \<Rightarrow> Inl e | Inr rel \<Rightarrow> Inr (rel = JStr ''up''))"

fun find_list :: "(jsval \<Rightarrow> jserr + bool) \<Rightarrow> jsval list \<Rightarrow> jserr + jsval" where
  "find_list p [] = Inr JUndefined"
| "find_list p (x # xs) =
     (case p x of
        Inl e \<Rightarrow> Inl e
      | Inr b \<Rightarrow> if b then Inr x else find_list p xs)"

definition find_in :: "(jsval \<Rightarrow> jserr + bool) \<Rightarrow> jsval \<Rightarrow> jserr + jsval" where
  \<comment> \<open>\<^verbatim>\<open>v.find(p)\<close>: only an array has the method; no match is undefined\<close>
  "find_in p v =
     (case v of
        JArr xs \<Rightarrow> find_list p xs
      | JUndefined \<Rightarrow> Inl (TypeError ''Cannot read properties of undefined'')
      | JNull \<Rightarrow> Inl (TypeError ''Cannot read properties of null'')
      | _ \<Rightarrow> Inl (TypeError ''authorization.links.find is not a function''))"

fun split_on :: "char \<Rightarrow> string \<Rightarrow> string list" where
  "split_on sep [] = [[]]"
| "split_on sep (c # cs) =
     (if c = sep then [] # split_on sep cs
      else (case split_on sep cs of
              [] \<Rightarrow> [[c]]
            | p # ps \<Rightarrow> (c # p) # ps))"

definition split_slash :: "jsval \<Rightarrow> jserr + jsval" where
  \<comment> \<open>\<^verbatim>\<open>v.split("/")\<close>: only a string has the method\<close>
  "split_slash v =
     (case v of
        JStr s \<Rightarrow> Inr (JArr (map JStr (split_on CHR ''/'' s)))
      | JUndefined \<Rightarrow> Inl (TypeError ''Cannot read properties of undefined'')
      | JNull \<Rightarrow> Inl (TypeError ''Cannot read properties of null'')
      | _ \<Rightarrow> Inl (TypeError ''link.href.split is not a function''))"

definition retrieveOrderFromAuth :: "'s PayPalBase \<Rightarrow> jsval \<Rightarrow> (jsval, 's) prog" where
  "retrieveOrderFromAuth this authorization =
     bnd (lift (get authorization ''links'')) (\<lambda>links.
     bnd (lift (find_in relIsUp links)) (\<lambda>link.
     bnd (lift (get link ''href'')) (\<lambda>href.
     bnd (lift (split_slash href)) (\<lambda>parts.
     bnd (lift (get parts ''length'')) (\<lambda>len.
     bnd (lift (at parts (case len of JNum n \<Rightarrow> nat (n - 1) | _ \<Rightarrow> 0))) (\<lambda>orderId.
     if \<not> truthy orderId then ret JNull
     else remote this (GetOrder orderId)))))))"

text \<open>The host's webhook actions and the result of interpreting a webhook.\<close>

datatype PaymentActions =
  ACTION_AUTHORIZED | ACTION_SUCCESSFUL | ACTION_FAILED | ACTION_NOT_SUPPORTED

record WebhookActionResult =
  action :: PaymentActions
  data :: "(jsval \<times> jsval) option"  \<comment> \<open>amount and session id\<close>

definition getWebhookActionAndData ::
  "(jsval \<Rightarrow> jsval) \<Rightarrow> jsval \<Rightarrow> (WebhookActionResult, 's) prog" where
  \<comment> \<open>\<open>parseFloat\<close> is the engine's; the event is the constant the source assigns\<close>
  "getWebhookActionAndData parseFloat webhookData =
     bnd (lift (reads webhookData [F ''data'', F ''purchase_units''])) (\<lambda>purchase_units.
     bnd (lift (at purchase_units 0)) (\<lambda>purchaseUnit.
     bnd (lift (get purchaseUnit ''payments'')) (\<lambda>payments.
     bnd (lift (reads payments [F ''captures'', I 0, F ''id''])) (\<lambda>paymentId.
     bnd (lift (reads payments [F ''authorizations'', I 0, F ''id''])) (\<lambda>authorizationId.
     bnd (lift (reads purchaseUnit [F ''amount'', F ''value''])) (\<lambda>v.
     let amount = parseFloat v in
     bnd (lift (reads purchaseUnit [F ''amount'', F ''currency_code''])) (\<lambda>currency_code.
     let event = ''unknown'' in
     if event = ''authorized''
     then ret \<lparr>action = ACTION_AUTHORIZED, data = Some (amount, authorizationId)\<rparr>
     else if event = ''succeeded''
     then ret \<lparr>action = ACTION_SUCCESSFUL, data = Some (amount, paymentId)\<rparr>
     else if event = ''failed''
     then ret \<lparr>action = ACTION_FAILED,
                data = Some (amount, coalesce paymentId authorizationId)\<rparr>
     else ret \<lparr>action = ACTION_NOT_SUPPORTED, data = None\<rparr>)))))))"

section \<open>A scripted remote client\<close>

text \<open>
  A concrete client for the examples: the remote state is the list of answers still to
  come, and each request consumes the next one.
\<close>

definition scripted ::
  "call \<Rightarrow> (jserr + jsval) list \<Rightarrow> (jserr + jsval) \<times> (jserr + jsval) list" where
  "scripted c s =
     (case s of
        [] \<Rightarrow> (Inl (Error ''no answer scripted''), [])
      | r # rs \<Rightarrow> (r, rs))"

definition whole_units :: "jsval \<Rightarrow> nat \<Rightarrow> jserr + string" where
  \<comment> \<open>renders a whole number with the asked number of decimal places\<close>
  "whole_units amount precision =
     (case amount of
        JNum n \<Rightarrow> Inr (show_int n @ (if precision = 0 then []
                                     else CHR ''.'' # replicate precision CHR ''0''))
      | _ \<Rightarrow> Inl (Error ''Invalid BigNumber value''))"

definition adapter :: "(jserr + jsval) list PayPalBase" where
  "adapter = \<lparr>options = [(''clientId'', JStr ''id''), (''clientSecret'', JStr ''secret'')],
              paypal = scripted, toFixed = whole_units\<rparr>"

definition order_of :: "string \<Rightarrow> jsval" where
  \<comment> \<open>a remote order \<open>O1\<close> with the given status and no invoice id\<close>
  "order_of status = JObj [(''id'', JStr ''O1''), (''status'', JStr status)]"

section \<open>Running the combinators\<close>

lemmas prog_defs = ret_def throw_def lift_def bnd_def catch_def remote_def

lemmas fixture_defs = adapter_def scripted_def whole_units_def order_of_def

lemma retrievePayment_run:
  assumes "get psd ''id'' = Inr i"
  shows "retrievePayment this psd (tr, s) =
     (case paypal this (GetOrder i) s of
        (Inl e, s') \<Rightarrow> (Inr JUndefined, (tr @ [GetOrder i], s'))
      | (Inr order, s') \<Rightarrow> (Inr order, (tr @ [GetOrder i], s')))"
  using assms
  by (auto simp: retrievePayment_def prog_defs split: prod.splits sum.splits)

lemma retrievePayment_object:
  assumes "retrievePayment this psd w = (Inr (JObj order), w')"
  shows "\<exists>i. get psd ''id'' = Inr i \<and> fst w' = fst w @ [GetOrder i]
           \<and> paypal this (GetOrder i) (snd w) = (Inr (JObj order), snd w')"
  using assms
  by (cases w; cases "get psd ''id''")
     (auto simp: retrievePayment_def prog_defs split: prod.splits sum.splits)

lemma reads_append:
  "reads v (ks @ ks') = (case reads v ks of Inl e \<Rightarrow> Inl e | Inr v' \<Rightarrow> reads v' ks')"
  by (induction ks arbitrary: v) (auto split: sum.splits)

lemma reads_first_payments:
  assumes "reads pus (I 0 # F ''payments'' # ks) = Inr r"
  shows "\<exists>p. reads pus [I 0, F ''payments''] = Inr p \<and> reads p ks = Inr r"
  using assms reads_append [of pus "[I 0, F ''payments'']" ks]
  by (auto split: sum.splits)

lemma some_false_first_payments:
  assumes "some capturesLength (JArr (u # us)) = Inr False"
  shows "\<exists>p. get u ''payments'' = Inr p"
  using assms
  by (auto simp: some_def capturesLength_def split: sum.splits if_splits)

lemma buildError_Error:
  "buildError message (Error m) = NormalizedError message (JStr ''unknown'') (JStr m)"
  by (simp add: buildError_def Error_def has_key_def field_def isPaymentProviderError_def
      coalesce_def)

lemma buildError_TypeError:
  "buildError message (TypeError m) = NormalizedError message (JStr ''unknown'') (JStr m)"
  by (simp add: buildError_def TypeError_def has_key_def field_def isPaymentProviderError_def
      coalesce_def)

lemma two_zeros: "replicate 2 c = [c, c]"
  by (simp add: numeral_2_eq_2)

lemma convert_10_usd:
  "convertAmount (toFixed adapter) (JNum 10) (JStr ''usd'')
     = Inr (JObj [(''value'', JStr ''10.00''), (''currency_code'', JStr ''USD'')])"
  by (simp add: convertAmount_def toUpperCase_def upper_char_def PAYPAL_CURRENCY_CODES_def
      plain_def no_decimal_def fixture_defs show_int_def show_nat.simps two_zeros)

lemma convert_5_USD:
  "convertAmount (toFixed adapter) (JNum 5) (JStr ''USD'')
     = Inr (JObj [(''value'', JStr ''5.00''), (''currency_code'', JStr ''USD'')])"
  by (simp add: convertAmount_def toUpperCase_def upper_char_def PAYPAL_CURRENCY_CODES_def
      plain_def no_decimal_def fixture_defs show_int_def show_nat.simps two_zeros)

lemma split_on_nonempty: "split_on sep s \<noteq> []"
  by (induction s) (auto split: list.splits)

lemma some_list_True:
  "some_list capturesLength us = Inr True \<Longrightarrow> list_ex has_capture us"
  by (induction us) (auto simp: has_capture_def split: sum.splits if_splits)

lemma some_list_False:
  "some_list capturesLength us = Inr False \<longleftrightarrow> list_all no_capture us"
  by (induction us) (auto simp: no_capture_def split: sum.splits if_splits)

lemma no_capture_not_has: "no_capture u \<Longrightarrow> \<not> has_capture u"
  by (auto simp: no_capture_def has_capture_def split: sum.splits)

lemma list_all_no_capture: "list_all no_capture us \<Longrightarrow> \<not> list_ex has_capture us"
  by (induction us) (auto dest: no_capture_not_has)

lemma some_True_any: "some capturesLength pus = Inr True \<Longrightarrow> any_capture pus"
  by (cases pus) (auto simp: some_def any_capture_def dest: some_list_True)

lemma some_False_none: "some capturesLength pus = Inr False \<Longrightarrow> \<not> any_capture pus"
  by (cases pus) (auto simp: some_def any_capture_def some_list_False dest: list_all_no_capture)

lemma cancelPayment_cases:
  assumes "get psd ''id'' = Inr i"
    and "paypal this (GetOrder i) s = (Inr (JObj order), s1)"
    and "\<not> (field order ''status'' = VOIDED
            \<or> (field order ''status'' = COMPLETED \<and> truthy (field order ''invoice_id'')))"
    and "get psd ''purchase_units'' = Inr pus"
  shows "cancelPayment this psd (tr, s) =
    (case some capturesLength pus of
       Inl e \<Rightarrow> (Inr (buildError ''An error occurred in cancelPayment'' e), (tr @ [GetOrder i], s1))
     | Inr captured \<Rightarrow>
        (case reads pus (if captured then [I 0, F ''payments'', F ''captures'', I 0, F ''id'']
                         else [I 0, F ''payments'', F ''authorizations'', I 0, F ''id'']) of
           Inl e \<Rightarrow> (Inr (buildError ''An error occurred in cancelPayment'' e),
                     (tr @ [GetOrder i], s1))
         | Inr x \<Rightarrow>
            (let c = (if captured then RefundPayment x JUndefined
                      else CancelAuthorizedPayment x) in
             case paypal this c s1 of
               (Inl e, s2) \<Rightarrow>
                 (Inr (buildError ''An error occurred in cancelPayment'' e),
                  (tr @ [GetOrder i, c], s2))
             | (Inr y, s2) \<Rightarrow>
                 (case paypal this (GetOrder i) s2 of
                    (r, s3) \<Rightarrow>
                      (Inr (case r of Inl e \<Rightarrow> JUndefined | Inr fresh \<Rightarrow> fresh),
                       (tr @ [GetOrder i, c, GetOrder i], s3))))))"
proof -
  let ?msg = "''An error occurred in cancelPayment''"
  have first: "retrievePayment this psd (tr, s) = (Inr (JObj order), (tr @ [GetOrder i], s1))"
    using assms(1,2) by (simp add: retrievePayment_run)
  have again: "\<And>tr' s'. retrievePayment this psd (tr', s') =
     (case paypal this (GetOrder i) s' of
        (r, s3) \<Rightarrow> (Inr (case r of Inl e \<Rightarrow> JUndefined | Inr fresh \<Rightarrow> fresh),
                     (tr' @ [GetOrder i], s3)))"
    using assms(1) by (auto simp: retrievePayment_run split: prod.splits sum.splits)
  have body: "cancelPayment this psd (tr, s) =
     catch
       (bnd (lift (some capturesLength pus)) (\<lambda>isAlreadyCaptured.
        bnd (if isAlreadyCaptured
             then bnd (lift (reads pus [I 0, F ''payments''])) (\<lambda>payments.
                  bnd (lift (reads payments [F ''captures'', I 0, F ''id''])) (\<lambda>payId.
                  remote this (RefundPayment payId JUndefined)))
             else bnd (lift (reads pus
                               [I 0, F ''payments'', F ''authorizations'', I 0, F ''id'']))
                    (\<lambda>id.
                  remote this (CancelAuthorizedPayment id))) (\<lambda>done.
        retrievePayment this psd)))
       (\<lambda>error. ret (buildError ?msg error)) (tr @ [GetOrder i], s1)"
    unfolding cancelPayment_def
    using assms(3,4) first
    by (auto simp: ret_def lift_def bnd_def catch_def)
  have two: "reads pus [I 0, F ''payments'', F ''captures'', I 0, F ''id'']
     = (case reads pus [I 0, F ''payments''] of Inl e \<Rightarrow> Inl e
        | Inr p \<Rightarrow> reads p [F ''captures'', I 0, F ''id''])"
    using reads_append [of pus "[I 0, F ''payments'']" "[F ''captures'', I 0, F ''id'']"]
    by simp
  show ?thesis
  proof (cases "some capturesLength pus")
    case (Inl e)
    then show ?thesis
      unfolding body by (simp add: ret_def lift_def bnd_def catch_def)
  next
    case (Inr captured)
    show ?thesis
    proof (cases captured)
      case True
      show ?thesis
      proof (cases "reads pus [I 0, F ''payments'']")
        case (Inl e)
        with Inr True show ?thesis
          unfolding body by (simp add: two ret_def lift_def bnd_def catch_def del: reads.simps)
      next
        case p: (Inr p)
        show ?thesis
        proof (cases "reads p [F ''captures'', I 0, F ''id'']")
          case (Inl e)
          with Inr True p show ?thesis
            unfolding body by (simp add: two ret_def lift_def bnd_def catch_def del: reads.simps)
        next
          case x: (Inr x)
          with Inr True p show ?thesis
            unfolding body
            by (simp add: two ret_def lift_def bnd_def catch_def remote_def again
                     del: reads.simps split: prod.splits sum.splits)
        qed
      qed
    next
      case False
      show ?thesis
      proof (cases "reads pus [I 0, F ''payments'', F ''authorizations'', I 0, F ''id'']")
        case (Inl e)
        with Inr False show ?thesis
          unfolding body by (simp add: ret_def lift_def bnd_def catch_def del: reads.simps)
      next
        case x: (Inr x)
        with Inr False show ?thesis
          unfolding body
          by (simp add: ret_def lift_def bnd_def catch_def remote_def again
                   del: reads.simps split: prod.splits sum.splits)
      qed
    qed
  qed
qed


lemma any_capture_some: "any_capture pus \<Longrightarrow> some capturesLength pus \<noteq> Inr False"
  using some_False_none by blast

lemma no_capture_some: "\<not> any_capture pus \<Longrightarrow> some capturesLength pus \<noteq> Inr True"
  using some_True_any by blast

lemma buildError_shape:
  "\<exists>code detail. buildError message e = NormalizedError message code detail"
  unfolding buildError_def by blast

lemma refundPayment_no_capture:
  assumes "get psd ''purchase_units'' = Inr pus" and "\<not> any_capture pus"
  shows "\<exists>code detail. refundPayment this psd refundAmount (tr, s) =
           (Inr (NormalizedError ''An error occurred in refundPayment'' code detail), (tr, s))"
proof -
  from assms(2) have ns: "some capturesLength pus \<noteq> Inr True" by (rule no_capture_some)
  have "\<exists>e. refundPayment this psd refundAmount (tr, s) =
           (Inr (buildError ''An error occurred in refundPayment'' e), (tr, s))"
  proof (cases "at pus 0")
    case (Inl e)
    with assms(1) show ?thesis
      by (auto simp: refundPayment_def ret_def lift_def bnd_def catch_def simp del: at.simps)
  next
    case u: (Inr u)
    show ?thesis
    proof (cases "get u ''payments''")
      case (Inl e)
      with assms(1) u show ?thesis
        by (auto simp: refundPayment_def ret_def lift_def bnd_def catch_def simp del: at.simps)
    next
      case p: (Inr p)
      show ?thesis
      proof (cases "some capturesLength pus")
        case (Inl e)
        with assms(1) u p show ?thesis
          by (auto simp: refundPayment_def ret_def lift_def bnd_def catch_def simp del: at.simps)
      next
        case (Inr b)
        with ns have "some capturesLength pus = Inr False" by (cases b) auto
        with assms(1) u p show ?thesis
          by (auto simp: refundPayment_def ret_def lift_def bnd_def catch_def throw_def
                simp del: at.simps)
      qed
    qed
  qed
  then show ?thesis using buildError_shape by metis
qed


section \<open>Errors that escape a lifecycle method\<close>

text \<open>
  C1. Every failure of a lifecycle method should come back as a NormalizedError. In
  \<^verbatim>\<open>capturePayment\<close> the read \<^verbatim>\<open>purchase_units[0].payments.authorizations[0].id\<close> stands
  before the try block: on session data whose list of purchase units is empty the
  TypeError of that read leaves the method as it is, for every client and every remote
  state, and no request is issued.
\<close>

theorem capturePayment_raw_exception:
  "capturePayment this (JObj [(''purchase_units'', JArr [])]) w
     = (Inl (TypeError ''Cannot read properties of undefined''), w)"
  by (simp add: capturePayment_def prog_defs field_def)

text \<open>
  The same happens in \<^verbatim>\<open>getWebhookActionAndData\<close>, which has no try block, on a payload
  whose first purchase unit has no capture, and in \<^verbatim>\<open>getPaymentStatus\<close> whenever the
  retrieval fails: the undefined result of \<^verbatim>\<open>retrievePayment\<close> is read for its status.
\<close>

lemma getWebhookActionAndData_raw_exception:
  "getWebhookActionAndData parseFloat
     (JObj [(''data'', JObj [(''purchase_units'',
        JArr [JObj [(''payments'',
                     JObj [(''captures'', JArr []),
                           (''authorizations'', JArr [JObj [(''id'', JStr ''A1'')]])])]])])])
     w
   = (Inl (TypeError ''Cannot read properties of undefined''), w)"
  by (simp add: getWebhookActionAndData_def prog_defs field_def)

lemma getPaymentStatus_raw_exception:
  assumes "get psd ''id'' = Inr i" and "paypal this (GetOrder i) s = (Inl e, s')"
  shows "getPaymentStatus this psd (tr, s)
         = (Inl (TypeError ''Cannot read properties of undefined''), (tr @ [GetOrder i], s'))"
  using assms by (simp add: getPaymentStatus_def retrievePayment_run prog_defs)

section \<open>The status table\<close>

text \<open>
  C2. When the retrieval yields a remote order, \<^verbatim>\<open>getPaymentStatus\<close> answers with a
  status that is a function of the order's status property alone: CREATED gives PENDING;
  SAVED, APPROVED and PAYER_ACTION_REQUIRED give REQUIRES_MORE; VOIDED gives CANCELED;
  COMPLETED gives AUTHORIZED; any other value gives PENDING. Nothing is requested
  beyond the retrieval.
\<close>

theorem getPaymentStatus_table:
  assumes "retrievePayment this psd w = (Inr (JObj order), w')"
  shows "getPaymentStatus this psd w =
     (Inr (if field order ''status'' = CREATED then PENDING
           else if field order ''status'' \<in> {SAVED, APPROVED, PAYER_ACTION_REQUIRED}
             then REQUIRES_MORE
           else if field order ''status'' = VOIDED then CANCELED
           else if field order ''status'' = COMPLETED then AUTHORIZED
           else PENDING), w')"
  using assms by (simp add: getPaymentStatus_def prog_defs)

theorem getPaymentStatus_table_witness:
  "retrievePayment adapter (JObj [(''id'', JStr ''O1'')]) ([], [Inr (order_of ''APPROVED'')])
     = (Inr (JObj [(''id'', JStr ''O1''), (''status'', APPROVED)]),
        ([GetOrder (JStr ''O1'')], []))
   \<and> getPaymentStatus adapter (JObj [(''id'', JStr ''O1'')])
        ([], [Inr (order_of ''APPROVED'')])
     = (Inr REQUIRES_MORE, ([GetOrder (JStr ''O1'')], []))"
proof -
  have h: "retrievePayment adapter (JObj [(''id'', JStr ''O1'')])
             ([], [Inr (order_of ''APPROVED'')])
           = (Inr (JObj [(''id'', JStr ''O1''), (''status'', APPROVED)]),
              ([GetOrder (JStr ''O1'')], []))"
    by (simp add: retrievePayment_def prog_defs fixture_defs field_def)
  from getPaymentStatus_table [OF h] h show ?thesis
    by (simp add: field_def)
qed

section \<open>Cancelling: the short circuit\<close>

text \<open>
  C3. When the order just retrieved is VOIDED, or is COMPLETED and carries a truthy
  (for a string: non-empty) invoice id, \<^verbatim>\<open>cancelPayment\<close> returns that very order and
  the only request it has issued is the retrieval: no refund, no void, no patch.
\<close>

theorem cancelPayment_short_circuit:
  assumes "retrievePayment this psd w = (Inr (JObj order), w')"
    and "field order ''status'' = VOIDED
         \<or> (field order ''status'' = COMPLETED \<and> truthy (field order ''invoice_id''))"
  shows "cancelPayment this psd w = (Inr (JObj order), w')
         \<and> (\<exists>i. get psd ''id'' = Inr i \<and> fst w' = fst w @ [GetOrder i])
         \<and> filter is_mutation (fst w') = filter is_mutation (fst w)"
proof -
  from retrievePayment_object [OF assms(1)]
  obtain i where i: "get psd ''id'' = Inr i" "fst w' = fst w @ [GetOrder i]"
    by blast
  have "cancelPayment this psd w = (Inr (JObj order), w')"
    using assms by (auto simp: cancelPayment_def prog_defs)
  with i show ?thesis by simp
qed

theorem cancelPayment_short_circuit_witness:
  "cancelPayment adapter (JObj [(''id'', JStr ''O1'')])
     ([], [Inr (JObj [(''status'', COMPLETED), (''invoice_id'', JStr ''INV-7'')])])
   = (Inr (JObj [(''status'', COMPLETED), (''invoice_id'', JStr ''INV-7'')]),
      ([GetOrder (JStr ''O1'')], []))"
proof -
  have h: "retrievePayment adapter (JObj [(''id'', JStr ''O1'')])
             ([], [Inr (JObj [(''status'', COMPLETED), (''invoice_id'', JStr ''INV-7'')])])
           = (Inr (JObj [(''status'', COMPLETED), (''invoice_id'', JStr ''INV-7'')]),
              ([GetOrder (JStr ''O1'')], []))"
    by (simp add: retrievePayment_def prog_defs fixture_defs field_def)
  have c: "field [(''status'', COMPLETED), (''invoice_id'', JStr ''INV-7'')] ''status'' = VOIDED
           \<or> (field [(''status'', COMPLETED), (''invoice_id'', JStr ''INV-7'')] ''status''
                = COMPLETED
              \<and> truthy (field [(''status'', COMPLETED), (''invoice_id'', JStr ''INV-7'')]
                          ''invoice_id''))"
    by (simp add: field_def)
  from cancelPayment_short_circuit [OF h c] show ?thesis
    by simp
qed

section \<open>Retrieval that fails\<close>

text \<open>
  C6. When the remote getOrder request fails, \<^verbatim>\<open>retrievePayment\<close> does not raise and
  does not return the error object it builds: its result is undefined. The request is
  the only one issued.
\<close>

theorem retrievePayment_failure_undefined:
  assumes "get psd ''id'' = Inr i"
    and "paypal this (GetOrder i) s = (Inl e, s')"
  shows "retrievePayment this psd (tr, s) = (Inr JUndefined, (tr @ [GetOrder i], s'))
         \<and> JUndefined \<noteq> buildError ''An error occurred in retrievePayment'' e"
  using assms by (simp add: retrievePayment_run buildError_def NormalizedError_def)

theorem retrievePayment_failure_undefined_witness:
  "retrievePayment adapter (JObj [(''id'', JStr ''O1'')]) ([], [Inl (Error ''timeout'')])
     = (Inr JUndefined, ([GetOrder (JStr ''O1'')], []))"
proof -
  have g: "get (JObj [(''id'', JStr ''O1'')]) ''id'' = Inr (JStr ''O1'')"
    by (simp add: field_def)
  have r: "paypal adapter (GetOrder (JStr ''O1'')) [Inl (Error ''timeout'')]
           = (Inl (Error ''timeout''), [])"
    by (simp add: fixture_defs)
  from retrievePayment_failure_undefined [OF g r, of "[]"] show ?thesis
    by simp
qed

section \<open>The parent order of an authorization\<close>

text \<open>
  C8. An authorization without a link of relation \<open>up\<close> should give null. The source
  reads \<^verbatim>\<open>link.href\<close> from the undefined result of \<^verbatim>\<open>find\<close>: with an empty list of links
  the method throws a TypeError, for every client and every remote state. No request is
  issued.
\<close>

theorem retrieveOrderFromAuth_no_up_link_throws:
  "retrieveOrderFromAuth this (JObj [(''links'', JArr [])]) w
     = (Inl (TypeError ''Cannot read properties of undefined''), w)"
  by (simp add: retrieveOrderFromAuth_def prog_defs field_def find_in_def)

text \<open>
  With a link of relation \<open>up\<close> whose address ends in a non-empty segment, that segment
  is the id of the order requested.
\<close>

lemma retrieveOrderFromAuth_up_link:
  assumes "get authorization ''links'' = Inr (JArr ls)"
    and "find_list relIsUp ls = Inr (JObj l)"
    and "field l ''href'' = JStr href"
    and "last (split_on CHR ''/'' href) \<noteq> []"
  shows "retrieveOrderFromAuth this authorization (tr, s)
         = (case paypal this (GetOrder (JStr (last (split_on CHR ''/'' href)))) s of
              (r, s') \<Rightarrow> (r, (tr @ [GetOrder (JStr (last (split_on CHR ''/'' href)))], s')))"
proof -
  let ?parts = "split_on CHR ''/'' href"
  have ne: "?parts \<noteq> []" by (rule split_on_nonempty)
  then have n: "nat (int (length ?parts) - 1) = length ?parts - 1" by simp
  from ne have lt: "length ?parts - 1 < length ?parts" by (cases ?parts) auto
  from ne have nth: "map JStr ?parts ! (length ?parts - 1) = JStr (last ?parts)"
    by (simp add: last_conv_nth)
  show ?thesis
    using assms ne n lt nth
    by (simp add: retrieveOrderFromAuth_def prog_defs find_in_def split_slash_def
        split: prod.splits)
qed

section \<open>Cancelling: refund or void\<close>

text \<open>
  C4, as the code has it. Take a session whose first retrieval yields an order outside
  the short circuit. \<^verbatim>\<open>cancelPayment\<close> then issues at most one mutating request. If some
  purchase unit has a capture it issues no void request; if no purchase unit has a
  capture it issues no refund request. When the test over the purchase units evaluates
  to true and the first purchase unit has a first capture, it issues one refund request
  against that capture's id; when the test evaluates to false (so every unit carries a
  payments object) and the first purchase unit has a first authorization, it issues one
  void request against that authorization's id. When the request succeeds the order is
  retrieved again and the result of that retrieval is returned (undefined when it
  fails); when the request fails a NormalizedError is returned and nothing is retrieved.
\<close>

theorem cancelPayment_refund_or_void:
  assumes "get psd ''id'' = Inr i"
    and "paypal this (GetOrder i) s = (Inr (JObj order), s1)"
    and "\<not> (field order ''status'' = VOIDED
            \<or> (field order ''status'' = COMPLETED \<and> truthy (field order ''invoice_id'')))"
    and "get psd ''purchase_units'' = Inr pus"
  shows "(any_capture pus \<longrightarrow>
            filter is_void (fst (snd (cancelPayment this psd (tr, s)))) = filter is_void tr)
       \<and> (\<not> any_capture pus \<longrightarrow>
            filter is_refund (fst (snd (cancelPayment this psd (tr, s)))) = filter is_refund tr)
       \<and> length (filter is_mutation (fst (snd (cancelPayment this psd (tr, s)))))
            \<le> Suc (length (filter is_mutation tr))
       \<and> (some capturesLength pus = Inr True
          \<and> reads pus [I 0, F ''payments'', F ''captures'', I 0, F ''id''] = Inr payId \<longrightarrow>
          cancelPayment this psd (tr, s) =
            (case paypal this (RefundPayment payId JUndefined) s1 of
               (Inl e, s2) \<Rightarrow>
                 (Inr (buildError ''An error occurred in cancelPayment'' e),
                  (tr @ [GetOrder i, RefundPayment payId JUndefined], s2))
             | (Inr x, s2) \<Rightarrow>
                 (case paypal this (GetOrder i) s2 of
                    (r, s3) \<Rightarrow>
                      (Inr (case r of Inl e \<Rightarrow> JUndefined | Inr fresh \<Rightarrow> fresh),
                       (tr @ [GetOrder i, RefundPayment payId JUndefined, GetOrder i], s3)))))
       \<and> (some capturesLength pus = Inr False
          \<and> reads pus [I 0, F ''payments'', F ''authorizations'', I 0, F ''id'']
              = Inr authId \<longrightarrow>
          cancelPayment this psd (tr, s) =
            (case paypal this (CancelAuthorizedPayment authId) s1 of
               (Inl e, s2) \<Rightarrow>
                 (Inr (buildError ''An error occurred in cancelPayment'' e),
                  (tr @ [GetOrder i, CancelAuthorizedPayment authId], s2))
             | (Inr x, s2) \<Rightarrow>
                 (case paypal this (GetOrder i) s2 of
                    (r, s3) \<Rightarrow>
                      (Inr (case r of Inl e \<Rightarrow> JUndefined | Inr fresh \<Rightarrow> fresh),
                       (tr @ [GetOrder i, CancelAuthorizedPayment authId, GetOrder i], s3)))))"
proof -
  note cases = cancelPayment_cases [OF assms, of tr]
  have v: "any_capture pus \<longrightarrow>
            filter is_void (fst (snd (cancelPayment this psd (tr, s)))) = filter is_void tr"
  proof
    assume "any_capture pus"
    then have "some capturesLength pus \<noteq> Inr False" by (rule any_capture_some)
    then show "filter is_void (fst (snd (cancelPayment this psd (tr, s)))) = filter is_void tr"
      unfolding cases
      by (cases "some capturesLength pus")
         (auto simp: Let_def simp del: reads.simps split: sum.splits prod.splits)
  qed
  have r: "\<not> any_capture pus \<longrightarrow>
            filter is_refund (fst (snd (cancelPayment this psd (tr, s)))) = filter is_refund tr"
  proof
    assume "\<not> any_capture pus"
    then have "some capturesLength pus \<noteq> Inr True" by (rule no_capture_some)
    then show "filter is_refund (fst (snd (cancelPayment this psd (tr, s))))
               = filter is_refund tr"
      unfolding cases
      by (cases "some capturesLength pus")
         (auto simp: Let_def simp del: reads.simps split: sum.splits prod.splits)
  qed
  have m: "length (filter is_mutation (fst (snd (cancelPayment this psd (tr, s)))))
            \<le> Suc (length (filter is_mutation tr))"
    unfolding cases
    by (cases "some capturesLength pus")
       (auto simp: Let_def simp del: reads.simps split: sum.splits prod.splits)
  have a: "some capturesLength pus = Inr True
          \<and> reads pus [I 0, F ''payments'', F ''captures'', I 0, F ''id''] = Inr payId \<longrightarrow>
          cancelPayment this psd (tr, s) =
            (case paypal this (RefundPayment payId JUndefined) s1 of
               (Inl e, s2) \<Rightarrow>
                 (Inr (buildError ''An error occurred in cancelPayment'' e),
                  (tr @ [GetOrder i, RefundPayment payId JUndefined], s2))
             | (Inr x, s2) \<Rightarrow>
                 (case paypal this (GetOrder i) s2 of
                    (r, s3) \<Rightarrow>
                      (Inr (case r of Inl e \<Rightarrow> JUndefined | Inr fresh \<Rightarrow> fresh),
                       (tr @ [GetOrder i, RefundPayment payId JUndefined, GetOrder i], s3))))"
    unfolding cases by (simp add: Let_def del: reads.simps)
  have b: "some capturesLength pus = Inr False
          \<and> reads pus [I 0, F ''payments'', F ''authorizations'', I 0, F ''id'']
              = Inr authId \<longrightarrow>
          cancelPayment this psd (tr, s) =
            (case paypal this (CancelAuthorizedPayment authId) s1 of
               (Inl e, s2) \<Rightarrow>
                 (Inr (buildError ''An error occurred in cancelPayment'' e),
                  (tr @ [GetOrder i, CancelAuthorizedPayment authId], s2))
             | (Inr x, s2) \<Rightarrow>
                 (case paypal this (GetOrder i) s2 of
                    (r, s3) \<Rightarrow>
                      (Inr (case r of Inl e \<Rightarrow> JUndefined | Inr fresh \<Rightarrow> fresh),
                       (tr @ [GetOrder i, CancelAuthorizedPayment authId, GetOrder i], s3))))"
    unfolding cases by (simp add: Let_def del: reads.simps)
  from v r m a b show ?thesis by blast
qed

theorem cancelPayment_refund_or_void_witness:
  "cancelPayment adapter
     (JObj [(''id'', JStr ''O1''),
            (''purchase_units'',
             JArr [JObj [(''payments'', JObj [(''captures'', JArr [JObj [(''id'', JStr ''C1'')]])])]])])
     ([], [Inr (order_of ''COMPLETED''), Inr JNull,
           Inr (JObj [(''id'', JStr ''O1''), (''status'', COMPLETED),
                      (''invoice_id'', JStr ''INV-7'')])])
   = (Inr (JObj [(''id'', JStr ''O1''), (''status'', COMPLETED),
                 (''invoice_id'', JStr ''INV-7'')]),
      ([GetOrder (JStr ''O1''), RefundPayment (JStr ''C1'') JUndefined, GetOrder (JStr ''O1'')],
       []))
   \<and> filter is_void (fst (snd (cancelPayment adapter
     (JObj [(''id'', JStr ''O1''),
            (''purchase_units'',
             JArr [JObj [(''payments'', JObj [(''captures'', JArr [JObj [(''id'', JStr ''C1'')]])])]])])
     ([], [Inr (order_of ''COMPLETED''), Inr JNull,
           Inr (JObj [(''id'', JStr ''O1''), (''status'', COMPLETED),
                      (''invoice_id'', JStr ''INV-7'')])])))) = []
   \<and> cancelPayment adapter
     (JObj [(''id'', JStr ''O1''),
            (''purchase_units'',
             JArr [JObj [(''payments'',
                          JObj [(''authorizations'', JArr [JObj [(''id'', JStr ''A1'')]])])]])])
     ([], [Inr (order_of ''APPROVED''), Inr JNull, Inr (order_of ''VOIDED'')])
   = (Inr (order_of ''VOIDED''),
      ([GetOrder (JStr ''O1''), CancelAuthorizedPayment (JStr ''A1''), GetOrder (JStr ''O1'')],
       []))
   \<and> filter is_refund (fst (snd (cancelPayment adapter
     (JObj [(''id'', JStr ''O1''),
            (''purchase_units'',
             JArr [JObj [(''payments'',
                          JObj [(''authorizations'', JArr [JObj [(''id'', JStr ''A1'')]])])]])])
     ([], [Inr (order_of ''APPROVED''), Inr JNull, Inr (order_of ''VOIDED'')])))) = []"
proof -
  let ?cap = "JArr [JObj [(''payments'', JObj [(''captures'', JArr [JObj [(''id'', JStr ''C1'')]])])]]"
  let ?aut = "JArr [JObj [(''payments'',
                           JObj [(''authorizations'', JArr [JObj [(''id'', JStr ''A1'')]])])]]"
  let ?psd1 = "JObj [(''id'', JStr ''O1''), (''purchase_units'', ?cap)]"
  let ?psd2 = "JObj [(''id'', JStr ''O1''), (''purchase_units'', ?aut)]"
  let ?fresh = "JObj [(''id'', JStr ''O1''), (''status'', COMPLETED),
                      (''invoice_id'', JStr ''INV-7'')]"
  let ?w1 = "([] :: call list, [Inr (order_of ''COMPLETED''), Inr JNull, Inr ?fresh])"
  let ?w2 = "([] :: call list, [Inr (order_of ''APPROVED''), Inr JNull, Inr (order_of ''VOIDED'')])"
  have i1: "get ?psd1 ''id'' = Inr (JStr ''O1'')" by (simp add: field_def)
  have o1: "paypal adapter (GetOrder (JStr ''O1''))
              [Inr (order_of ''COMPLETED''), Inr JNull, Inr ?fresh]
            = (Inr (JObj [(''id'', JStr ''O1''), (''status'', COMPLETED)]),
               [Inr JNull, Inr ?fresh])"
    by (simp add: fixture_defs)
  have n1: "\<not> (field [(''id'', JStr ''O1''), (''status'', COMPLETED)] ''status'' = VOIDED
              \<or> (field [(''id'', JStr ''O1''), (''status'', COMPLETED)] ''status'' = COMPLETED
                 \<and> truthy (field [(''id'', JStr ''O1''), (''status'', COMPLETED)]
                             ''invoice_id'')))"
    by (simp add: field_def)
  have u1: "get ?psd1 ''purchase_units'' = Inr ?cap" by (simp add: field_def)
  have s1: "some capturesLength ?cap = Inr True"
    by (simp add: some_def capturesLength_def field_def)
  have a1: "any_capture ?cap"
    by (simp add: any_capture_def has_capture_def capturesLength_def field_def)
  have r1: "reads ?cap [I 0, F ''payments'', F ''captures'', I 0, F ''id''] = Inr (JStr ''C1'')"
    by (simp add: field_def)
  note t1 = cancelPayment_refund_or_void
              [OF i1 o1 n1 u1, where payId = "JStr ''C1''" and tr = "[]"]
  from t1 [THEN conjunct2, THEN conjunct2, THEN conjunct2, THEN conjunct1] s1 r1
  have one: "cancelPayment adapter ?psd1 ?w1
     = (Inr ?fresh,
        ([GetOrder (JStr ''O1''), RefundPayment (JStr ''C1'') JUndefined,
          GetOrder (JStr ''O1'')], []))"
    by (simp add: fixture_defs)
  from t1 [THEN conjunct1] a1
  have one': "filter is_void (fst (snd (cancelPayment adapter ?psd1 ?w1))) = []"
    by simp
  have i2: "get ?psd2 ''id'' = Inr (JStr ''O1'')" by (simp add: field_def)
  have o2: "paypal adapter (GetOrder (JStr ''O1''))
              [Inr (order_of ''APPROVED''), Inr JNull, Inr (order_of ''VOIDED'')]
            = (Inr (JObj [(''id'', JStr ''O1''), (''status'', APPROVED)]),
               [Inr JNull, Inr (order_of ''VOIDED'')])"
    by (simp add: fixture_defs)
  have n2: "\<not> (field [(''id'', JStr ''O1''), (''status'', APPROVED)] ''status'' = VOIDED
              \<or> (field [(''id'', JStr ''O1''), (''status'', APPROVED)] ''status'' = COMPLETED
                 \<and> truthy (field [(''id'', JStr ''O1''), (''status'', APPROVED)]
                             ''invoice_id'')))"
    by (simp add: field_def)
  have u2: "get ?psd2 ''purchase_units'' = Inr ?aut" by (simp add: field_def)
  have s2: "some capturesLength ?aut = Inr False"
    by (simp add: some_def capturesLength_def field_def)
  have a2: "\<not> any_capture ?aut"
    by (simp add: any_capture_def has_capture_def capturesLength_def field_def)
  have r2: "reads ?aut [I 0, F ''payments'', F ''authorizations'', I 0, F ''id'']
            = Inr (JStr ''A1'')"
    by (simp add: field_def)
  note t2 = cancelPayment_refund_or_void
              [OF i2 o2 n2 u2, where authId = "JStr ''A1''" and tr = "[]"]
  from t2 [THEN conjunct2, THEN conjunct2, THEN conjunct2, THEN conjunct2] s2 r2
  have two: "cancelPayment adapter ?psd2 ?w2
     = (Inr (order_of ''VOIDED''),
        ([GetOrder (JStr ''O1''), CancelAuthorizedPayment (JStr ''A1''),
          GetOrder (JStr ''O1'')], []))"
    by (simp add: fixture_defs)
  from t2 [THEN conjunct2, THEN conjunct1] a2
  have two': "filter is_refund (fst (snd (cancelPayment adapter ?psd2 ?w2))) = []"
    by simp
  from one one' two two' show ?thesis by blast
qed

text \<open>
  The claim as stated fails when the capture sits in a later purchase unit: the test over
  all units finds it, the first unit has none, the read of its first capture throws,
  and no refund request is issued.
\<close>

theorem cancelPayment_capture_in_second_unit_counterexample:
  "some capturesLength
     (JArr [JObj [(''payments'',
                   JObj [(''authorizations'', JArr [JObj [(''id'', JStr ''A1'')]])])],
            JObj [(''payments'', JObj [(''captures'', JArr [JObj [(''id'', JStr ''C2'')]])])]])
     = Inr True
   \<and> cancelPayment adapter
       (JObj [(''id'', JStr ''O1''),
              (''purchase_units'',
               JArr [JObj [(''payments'',
                            JObj [(''authorizations'', JArr [JObj [(''id'', JStr ''A1'')]])])],
                     JObj [(''payments'',
                            JObj [(''captures'', JArr [JObj [(''id'', JStr ''C2'')]])])]])])
       ([], [Inr (order_of ''COMPLETED''), Inr JNull, Inr (order_of ''COMPLETED'')])
     = (Inr (NormalizedError ''An error occurred in cancelPayment'' (JStr ''unknown'')
               (JStr ''Cannot read properties of undefined'')),
        ([GetOrder (JStr ''O1'')], [Inr JNull, Inr (order_of ''COMPLETED'')]))"
  by (simp add: cancelPayment_def retrievePayment_def prog_defs fixture_defs field_def
      some_def capturesLength_def buildError_TypeError)

section \<open>Refunding\<close>

text \<open>
  C5, as the code has it. Whenever no purchase unit has a capture, \<^verbatim>\<open>refundPayment\<close>,
  whatever the amount, returns a NormalizedError and issues no request; when moreover
  the list of purchase units is not empty and the test over the units evaluates to false
  (so every unit carries a payments object), it is the NormalizedError whose detail is
  the uncaptured-refund message. When the test evaluates to true, the first purchase
  unit has a first capture and the amount formats in the first purchase unit's own
  currency, one refund request carries the formatted amount against that capture's id;
  when it succeeds the order is retrieved again and the result of the retrieval
  returned, when it fails a NormalizedError is returned.
\<close>

theorem refundPayment_uncaptured_or_refund:
  assumes "get psd ''purchase_units'' = Inr pus"
  shows "(\<not> any_capture pus \<longrightarrow>
          (\<exists>code detail. refundPayment this psd refundAmount (tr, s) =
             (Inr (NormalizedError ''An error occurred in refundPayment'' code detail),
              (tr, s))))
       \<and> ((\<exists>u us. pus = JArr (u # us)) \<and> some capturesLength pus = Inr False \<longrightarrow>
          refundPayment this psd refundAmount (tr, s) =
            (Inr (NormalizedError ''An error occurred in refundPayment'' (JStr ''unknown'')
                    (JStr ''Cannot refund an uncaptured payment'')), (tr, s)))
       \<and> (some capturesLength pus = Inr True
          \<and> reads pus [I 0, F ''payments'', F ''captures'', I 0, F ''id''] = Inr paymentId
          \<and> reads pus [I 0, F ''amount'', F ''currency_code''] = Inr currency_code
          \<and> convertAmount (toFixed this) refundAmount currency_code = Inr converted
          \<and> get psd ''id'' = Inr i \<longrightarrow>
          refundPayment this psd refundAmount (tr, s) =
            (case paypal this (RefundPayment paymentId (JObj [(''amount'', converted)])) s of
               (Inl e, s1) \<Rightarrow>
                 (Inr (buildError ''An error occurred in refundPayment'' e),
                  (tr @ [RefundPayment paymentId (JObj [(''amount'', converted)])], s1))
             | (Inr x, s1) \<Rightarrow>
                 (case paypal this (GetOrder i) s1 of
                    (r, s2) \<Rightarrow>
                      (Inr (case r of Inl e \<Rightarrow> JUndefined | Inr fresh \<Rightarrow> fresh),
                       (tr @ [RefundPayment paymentId (JObj [(''amount'', converted)]),
                              GetOrder i], s2)))))"
proof (intro conjI impI)
  assume "\<not> any_capture pus"
  with assms show "\<exists>code detail. refundPayment this psd refundAmount (tr, s) =
             (Inr (NormalizedError ''An error occurred in refundPayment'' code detail),
              (tr, s))"
    by (rule refundPayment_no_capture)
next
  assume a: "(\<exists>u us. pus = JArr (u # us)) \<and> some capturesLength pus = Inr False"
  then obtain u us where u: "pus = JArr (u # us)" by blast
  with a obtain p where p: "get u ''payments'' = Inr p"
    using some_false_first_payments by blast
  show "refundPayment this psd refundAmount (tr, s) =
            (Inr (NormalizedError ''An error occurred in refundPayment'' (JStr ''unknown'')
                    (JStr ''Cannot refund an uncaptured payment'')), (tr, s))"
    unfolding refundPayment_def
    using assms a u p by (simp add: prog_defs buildError_Error)
next
  assume a: "some capturesLength pus = Inr True
          \<and> reads pus [I 0, F ''payments'', F ''captures'', I 0, F ''id''] = Inr paymentId
          \<and> reads pus [I 0, F ''amount'', F ''currency_code''] = Inr currency_code
          \<and> convertAmount (toFixed this) refundAmount currency_code = Inr converted
          \<and> get psd ''id'' = Inr i"
  then obtain p where p: "reads pus [I 0, F ''payments''] = Inr p"
     "reads p [F ''captures'', I 0, F ''id''] = Inr paymentId"
    using reads_first_payments by blast
  from p(1) obtain u where u: "at pus 0 = Inr u" "get u ''payments'' = Inr p"
    by (auto split: sum.splits)
  with a have cc: "reads u [F ''amount'', F ''currency_code''] = Inr currency_code"
    by (auto split: sum.splits)
  show "refundPayment this psd refundAmount (tr, s) =
            (case paypal this (RefundPayment paymentId (JObj [(''amount'', converted)])) s of
               (Inl e, s1) \<Rightarrow>
                 (Inr (buildError ''An error occurred in refundPayment'' e),
                  (tr @ [RefundPayment paymentId (JObj [(''amount'', converted)])], s1))
             | (Inr x, s1) \<Rightarrow>
                 (case paypal this (GetOrder i) s1 of
                    (r, s2) \<Rightarrow>
                      (Inr (case r of Inl e \<Rightarrow> JUndefined | Inr fresh \<Rightarrow> fresh),
                       (tr @ [RefundPayment paymentId (JObj [(''amount'', converted)]),
                              GetOrder i], s2))))"
    unfolding refundPayment_def
    using assms a p u cc
    by (auto simp: retrievePayment_run prog_defs simp del: reads.simps at.simps
             split: prod.splits sum.splits)
qed

theorem refundPayment_uncaptured_or_refund_witness:
  "snd (refundPayment adapter (JObj [(''id'', JStr ''O1''), (''purchase_units'', JArr [])])
          (JNum 5) ([], []))
   = ([], [])
   \<and> refundPayment adapter
     (JObj [(''id'', JStr ''O1''),
            (''purchase_units'',
             JArr [JObj [(''amount'', JObj [(''currency_code'', JStr ''USD''),
                                            (''value'', JStr ''10.00'')]),
                         (''payments'',
                          JObj [(''authorizations'', JArr [JObj [(''id'', JStr ''A1'')]])])]])])
     (JNum 5) ([], [])
   = (Inr (NormalizedError ''An error occurred in refundPayment'' (JStr ''unknown'')
             (JStr ''Cannot refund an uncaptured payment'')), ([], []))
   \<and> refundPayment adapter
     (JObj [(''id'', JStr ''O1''),
            (''purchase_units'',
             JArr [JObj [(''amount'', JObj [(''currency_code'', JStr ''USD''),
                                            (''value'', JStr ''10.00'')]),
                         (''payments'',
                          JObj [(''captures'', JArr [JObj [(''id'', JStr ''C1'')]])])]])])
     (JNum 5) ([], [Inr JNull, Inr (order_of ''COMPLETED'')])
   = (Inr (order_of ''COMPLETED''),
      ([RefundPayment (JStr ''C1'')
          (JObj [(''amount'', JObj [(''value'', JStr ''5.00''),
                                    (''currency_code'', JStr ''USD'')])]),
        GetOrder (JStr ''O1'')], []))"
proof -
  let ?money = "JObj [(''currency_code'', JStr ''USD''), (''value'', JStr ''10.00'')]"
  let ?u1 = "JObj [(''amount'', ?money),
                   (''payments'',
                    JObj [(''authorizations'', JArr [JObj [(''id'', JStr ''A1'')]])])]"
  let ?u2 = "JObj [(''amount'', ?money),
                   (''payments'', JObj [(''captures'', JArr [JObj [(''id'', JStr ''C1'')]])])]"
  let ?psd0 = "JObj [(''id'', JStr ''O1''), (''purchase_units'', JArr [])]"
  let ?psd1 = "JObj [(''id'', JStr ''O1''), (''purchase_units'', JArr [?u1])]"
  let ?psd2 = "JObj [(''id'', JStr ''O1''), (''purchase_units'', JArr [?u2])]"
  let ?amt = "JObj [(''value'', JStr ''5.00''), (''currency_code'', JStr ''USD'')]"
  have p0: "get ?psd0 ''purchase_units'' = Inr (JArr [])" by (simp add: field_def)
  have a0: "\<not> any_capture (JArr [])" by (simp add: any_capture_def)
  from refundPayment_uncaptured_or_refund [OF p0, where tr = "[]" and s = "[]"
         and this = adapter and refundAmount = "JNum 5", THEN conjunct1] a0
  have zero: "snd (refundPayment adapter ?psd0 (JNum 5) ([], [])) = ([], [])"
    by auto
  have p1: "get ?psd1 ''purchase_units'' = Inr (JArr [?u1])" by (simp add: field_def)
  have e1: "\<exists>u us. JArr [?u1] = JArr (u # us)" by simp
  have s1: "some capturesLength (JArr [?u1]) = Inr False"
    by (simp add: some_def capturesLength_def field_def)
  from refundPayment_uncaptured_or_refund [OF p1, where tr = "[]" and s = "[]"
         and this = adapter and refundAmount = "JNum 5",
         THEN conjunct2, THEN conjunct1] e1 s1
  have one: "refundPayment adapter ?psd1 (JNum 5) ([], [])
     = (Inr (NormalizedError ''An error occurred in refundPayment'' (JStr ''unknown'')
               (JStr ''Cannot refund an uncaptured payment'')), ([], []))"
    by blast
  have p2: "get ?psd2 ''purchase_units'' = Inr (JArr [?u2])" by (simp add: field_def)
  have s2: "some capturesLength (JArr [?u2]) = Inr True"
    by (simp add: some_def capturesLength_def field_def)
  have r2: "reads (JArr [?u2]) [I 0, F ''payments'', F ''captures'', I 0, F ''id'']
            = Inr (JStr ''C1'')"
    by (simp add: field_def)
  have c2: "reads (JArr [?u2]) [I 0, F ''amount'', F ''currency_code''] = Inr (JStr ''USD'')"
    by (simp add: field_def)
  have i2: "get ?psd2 ''id'' = Inr (JStr ''O1'')" by (simp add: field_def)
  from refundPayment_uncaptured_or_refund [OF p2, where tr = "[]"
         and s = "[Inr JNull, Inr (order_of ''COMPLETED'')]"
         and this = adapter and refundAmount = "JNum 5" and paymentId = "JStr ''C1''"
         and currency_code = "JStr ''USD''" and converted = ?amt and i = "JStr ''O1''",
         THEN conjunct2, THEN conjunct2]
       s2 r2 c2 i2 convert_5_USD
  have two: "refundPayment adapter ?psd2 (JNum 5) ([], [Inr JNull, Inr (order_of ''COMPLETED'')])
     = (Inr (order_of ''COMPLETED''),
        ([RefundPayment (JStr ''C1'') (JObj [(''amount'', ?amt)]), GetOrder (JStr ''O1'')], []))"
    by (simp add: adapter_def scripted_def)
  from zero one two show ?thesis by blast
qed

text \<open>
  The claim as stated fails when the capture sits in a later purchase unit: a capture
  exists, the first unit has none, the read of its first capture throws, and no refund
  request is issued.
\<close>

theorem refundPayment_capture_in_second_unit_counterexample:
  "any_capture
     (JArr [JObj [(''amount'', JObj [(''currency_code'', JStr ''USD''),
                                     (''value'', JStr ''10.00'')]),
                  (''payments'', JObj [(''captures'', JArr [])])],
            JObj [(''payments'', JObj [(''captures'', JArr [JObj [(''id'', JStr ''C2'')]])])]])
   \<and> refundPayment adapter
     (JObj [(''id'', JStr ''O1''),
            (''purchase_units'',
             JArr [JObj [(''amount'', JObj [(''currency_code'', JStr ''USD''),
                                            (''value'', JStr ''10.00'')]),
                         (''payments'', JObj [(''captures'', JArr [])])],
                   JObj [(''payments'',
                          JObj [(''captures'', JArr [JObj [(''id'', JStr ''C2'')]])])]])])
     (JNum 5) ([], [Inr JNull, Inr (order_of ''COMPLETED'')])
   = (Inr (NormalizedError ''An error occurred in refundPayment'' (JStr ''unknown'')
             (JStr ''Cannot read properties of undefined'')),
      ([], [Inr JNull, Inr (order_of ''COMPLETED'')]))"
  by (simp add: refundPayment_def prog_defs field_def some_def capturesLength_def
      buildError_TypeError any_capture_def has_capture_def)

text \<open>
  On a purchase unit that carries no payments object the test itself throws before the
  uncaptured-refund error can be raised: the NormalizedError returned carries the
  TypeError of the read.
\<close>

lemma refundPayment_unit_without_payments:
  "refundPayment adapter
     (JObj [(''id'', JStr ''O1''),
            (''purchase_units'',
             JArr [JObj [(''amount'', JObj [(''currency_code'', JStr ''USD''),
                                            (''value'', JStr ''10.00'')])]])])
     (JNum 5) ([], [])
   = (Inr (NormalizedError ''An error occurred in refundPayment'' (JStr ''unknown'')
             (JStr ''Cannot read properties of undefined'')), ([], []))"
  by (simp add: refundPayment_def prog_defs field_def some_def capturesLength_def
      buildError_TypeError)

section \<open>Updating the amount\<close>

text \<open>
  C7. When the patch request fails, \<^verbatim>\<open>updatePayment\<close> runs \<^verbatim>\<open>initiatePayment\<close> on the same
  input (which carries the new amount and currency), from the remote state the failed
  patch left. What \<^verbatim>\<open>initiatePayment\<close> returns is returned; when it throws, the result is
  the NormalizedError built from the error of the patch, not from the one it threw.
\<close>

theorem updatePayment_patch_failure_falls_back:
  assumes "get (field kvs ''data'') ''id'' = Inr i"
    and "convertAmount (toFixed this) (field kvs ''amount'') (field kvs ''currency_code'')
           = Inr converted"
    and "paypal this (PatchOrder i (replaceAmount converted)) s = (Inl e, s1)"
  shows "updatePayment this (JObj kvs) (tr, s)
         = (case initiatePayment this (JObj kvs)
                  (tr @ [PatchOrder i (replaceAmount converted)], s1) of
              (Inl fallback_error, w2) \<Rightarrow>
                (Inr (buildError ''An error occurred in updatePayment'' e), w2)
            | (Inr r, w2) \<Rightarrow> (Inr r, w2))"
  using assms by (simp add: updatePayment_def prog_defs)

theorem updatePayment_patch_failure_falls_back_witness:
  "updatePayment adapter
     (JObj [(''currency_code'', JStr ''usd''), (''amount'', JNum 10),
            (''data'', JObj [(''id'', JStr ''O1'')])])
     ([], [Inl (Error ''patch rejected'')])
   = (Inr (NormalizedError ''An error occurred in updatePayment'' (JStr ''unknown'')
             (JStr ''patch rejected'')),
      ([PatchOrder (JStr ''O1'')
          (replaceAmount (JObj [(''value'', JStr ''10.00''), (''currency_code'', JStr ''USD'')]))],
       []))
   \<and> updatePayment adapter
     (JObj [(''currency_code'', JStr ''usd''), (''amount'', JNum 10),
            (''context'', JObj [(''session_id'', JStr ''s1'')]),
            (''data'', JObj [(''id'', JStr ''O1'')])])
     ([], [Inl (Error ''patch rejected''), Inr (order_of ''CREATED'')])
   = (Inr (JObj [(''data'', order_of ''CREATED'')]),
      ([PatchOrder (JStr ''O1'')
          (replaceAmount (JObj [(''value'', JStr ''10.00''), (''currency_code'', JStr ''USD'')])),
        CreateOrder (JObj
          [(''intent'', JStr ''AUTHORIZE''),
           (''purchase_units'', JArr [JObj
              [(''custom_id'', JStr ''s1''),
               (''amount'', JObj [(''value'', JStr ''10.00''),
                                  (''currency_code'', JStr ''USD'')])]])])],
       []))"
proof -
  let ?kvs = "[(''currency_code'', JStr ''usd''), (''amount'', JNum 10),
               (''data'', JObj [(''id'', JStr ''O1'')])]"
  let ?kvs2 = "[(''currency_code'', JStr ''usd''), (''amount'', JNum 10),
                (''context'', JObj [(''session_id'', JStr ''s1'')]),
                (''data'', JObj [(''id'', JStr ''O1'')])]"
  let ?amt = "JObj [(''value'', JStr ''10.00''), (''currency_code'', JStr ''USD'')]"
  have i: "get (field ?kvs ''data'') ''id'' = Inr (JStr ''O1'')"
    by (simp add: field_def)
  have c: "convertAmount (toFixed adapter) (field ?kvs ''amount'') (field ?kvs ''currency_code'')
           = Inr ?amt"
    using convert_10_usd by (simp add: field_def)
  have p: "paypal adapter (PatchOrder (JStr ''O1'') (replaceAmount ?amt))
             [Inl (Error ''patch rejected'')]
           = (Inl (Error ''patch rejected''), [])"
    by (simp add: fixture_defs)
  have f: "initiatePayment adapter (JObj ?kvs) ([PatchOrder (JStr ''O1'') (replaceAmount ?amt)], [])
           = (Inl (TypeError ''Cannot read properties of undefined''),
              ([PatchOrder (JStr ''O1'') (replaceAmount ?amt)], []))"
    by (simp add: initiatePayment_def prog_defs field_def)
  have one: "updatePayment adapter (JObj ?kvs) ([], [Inl (Error ''patch rejected'')])
     = (Inr (NormalizedError ''An error occurred in updatePayment'' (JStr ''unknown'')
             (JStr ''patch rejected'')),
        ([PatchOrder (JStr ''O1'') (replaceAmount ?amt)], []))"
    using updatePayment_patch_failure_falls_back [OF i c p, of "[]"] f
    by (simp add: buildError_Error)
  have i2: "get (field ?kvs2 ''data'') ''id'' = Inr (JStr ''O1'')"
    by (simp add: field_def)
  have c2: "convertAmount (toFixed adapter) (field ?kvs2 ''amount'')
              (field ?kvs2 ''currency_code'') = Inr ?amt"
    using convert_10_usd by (simp add: field_def)
  have p2: "paypal adapter (PatchOrder (JStr ''O1'') (replaceAmount ?amt))
             [Inl (Error ''patch rejected''), Inr (order_of ''CREATED'')]
           = (Inl (Error ''patch rejected''), [Inr (order_of ''CREATED'')])"
    by (simp add: fixture_defs)
  have f2: "initiatePayment adapter (JObj ?kvs2)
              ([PatchOrder (JStr ''O1'') (replaceAmount ?amt)], [Inr (order_of ''CREATED'')])
           = (Inr (JObj [(''data'', order_of ''CREATED'')]),
              ([PatchOrder (JStr ''O1'') (replaceAmount ?amt),
                CreateOrder (JObj
                  [(''intent'', JStr ''AUTHORIZE''),
                   (''purchase_units'', JArr [JObj
                      [(''custom_id'', JStr ''s1''), (''amount'', ?amt)]])])], []))"
    using convert_10_usd
    by (simp add: initiatePayment_def prog_defs field_def adapter_def scripted_def)
  have two: "updatePayment adapter (JObj ?kvs2)
               ([], [Inl (Error ''patch rejected''), Inr (order_of ''CREATED'')])
     = (Inr (JObj [(''data'', order_of ''CREATED'')]),
        ([PatchOrder (JStr ''O1'') (replaceAmount ?amt),
          CreateOrder (JObj
            [(''intent'', JStr ''AUTHORIZE''),
             (''purchase_units'', JArr [JObj
                [(''custom_id'', JStr ''s1''), (''amount'', ?amt)]])])], []))"
    using updatePayment_patch_failure_falls_back [OF i2 c2 p2, of "[]"] f2
    by simp
  from one two show ?thesis by simp
qed

text \<open>
  C10. When the patch request succeeds, \<^verbatim>\<open>updatePayment\<close> returns the session data the
  caller passed in, under the property \<open>data\<close>; the patch is the only request issued, so
  the patched order is not retrieved.
\<close>

theorem updatePayment_patch_success_returns_input:
  assumes "get (field kvs ''data'') ''id'' = Inr i"
    and "convertAmount (toFixed this) (field kvs ''amount'') (field kvs ''currency_code'')
           = Inr converted"
    and "paypal this (PatchOrder i (replaceAmount converted)) s = (Inr x, s1)"
  shows "updatePayment this (JObj kvs) (tr, s)
         = (Inr (JObj [(''data'', field kvs ''data'')]),
            (tr @ [PatchOrder i (replaceAmount converted)], s1))"
  using assms by (simp add: updatePayment_def prog_defs)

theorem updatePayment_patch_success_returns_input_witness:
  "updatePayment adapter
     (JObj [(''currency_code'', JStr ''usd''), (''amount'', JNum 10),
            (''data'', JObj [(''id'', JStr ''O1''), (''status'', CREATED)])])
     ([], [Inr JNull])
   = (Inr (JObj [(''data'', JObj [(''id'', JStr ''O1''), (''status'', CREATED)])]),
      ([PatchOrder (JStr ''O1'')
          (replaceAmount (JObj [(''value'', JStr ''10.00''), (''currency_code'', JStr ''USD'')]))],
       []))"
proof -
  let ?kvs = "[(''currency_code'', JStr ''usd''), (''amount'', JNum 10),
               (''data'', JObj [(''id'', JStr ''O1''), (''status'', CREATED)])]"
  let ?amt = "JObj [(''value'', JStr ''10.00''), (''currency_code'', JStr ''USD'')]"
  have i: "get (field ?kvs ''data'') ''id'' = Inr (JStr ''O1'')"
    by (simp add: field_def)
  have c: "convertAmount (toFixed adapter) (field ?kvs ''amount'') (field ?kvs ''currency_code'')
           = Inr ?amt"
    using convert_10_usd by (simp add: field_def)
  have p: "paypal adapter (PatchOrder (JStr ''O1'') (replaceAmount ?amt)) [Inr JNull]
           = (Inr JNull, [])"
    by (simp add: fixture_defs)
  from updatePayment_patch_success_returns_input [OF i c p, of "[]"] show ?thesis
    by (simp add: field_def)
qed

section \<open>Updating the session data\<close>

text \<open>
  C9. A payload that contains an amount should be refused: the comment in the source
  says that the amount must not be updated from here. The guard tests the truth value
  of the amount, so the payload whose amount is zero contains an amount and comes back
  unchanged, for every adapter and every remote state. No request is issued.
\<close>

theorem updatePaymentData_zero_amount_passes:
  "has_key [(''amount'', JNum 0)] ''amount''
   \<and> updatePaymentData this sessionId (JObj [(''amount'', JNum 0)]) w
       = (Inr (JObj [(''amount'', JNum 0)]), w)"
  by (simp add: updatePaymentData_def prog_defs field_def has_key_def)

text \<open>
  The rest of the claim holds: a payload whose amount is truthy gives the NormalizedError
  of the invalid-data violation, and a payload without an amount is returned unchanged.
\<close>

lemma updatePaymentData_truthy_or_absent:
  "(truthy (field kvs ''amount'') \<longrightarrow>
      updatePaymentData this sid (JObj kvs) w
        = (Inr (buildError ''An error occurred in updatePaymentData''
             (MedusaError INVALID_DATA ''Cannot update amount, use updatePayment instead'')), w))
   \<and> (\<not> has_key kvs ''amount'' \<longrightarrow>
      updatePaymentData this sid (JObj kvs) w = (Inr (JObj kvs), w))"
  by (auto simp: updatePaymentData_def prog_defs field_def has_key_def)


end
